theory Spec2Isabelle
  imports Complex_Main
begin

section \<open>Numbers of the simulation\<close>

text \<open>
  Every amount and every parameter of \<^verbatim>\<open>simulation.js\<close> is a JavaScript number. The
  model idealises a finite double as a \<^typ>\<open>real\<close> (no rounding, no overflow) and
  keeps the two other values a numeric slot of the program can hold: \<open>NaN\<close>, and
  \<open>Undefined\<close> (what reading a missing property gives). Arithmetic follows JavaScript:
  an operand that is not a number makes the result \<open>NaN\<close>, and every comparison
  with it is false. Where a property of the transitions SHOCK and REBALANCE depends on
  the rounding of doubles, they are given a second time with every operation rounded
  (section on double-precision arithmetic).
\<close>

datatype jsnum = Num real | NaN | Undefined

instantiation jsnum :: "{plus, minus, times, inverse, ord}"
begin

definition plus_jsnum :: "jsnum \<Rightarrow> jsnum \<Rightarrow> jsnum" where
  "plus_jsnum a b = (case (a, b) of (Num x, Num y) \<Rightarrow> Num (x + y) | _ \<Rightarrow> NaN)"

definition minus_jsnum :: "jsnum \<Rightarrow> jsnum \<Rightarrow> jsnum" where
  "minus_jsnum a b = (case (a, b) of (Num x, Num y) \<Rightarrow> Num (x - y) | _ \<Rightarrow> NaN)"

definition times_jsnum :: "jsnum \<Rightarrow> jsnum \<Rightarrow> jsnum" where
  "times_jsnum a b = (case (a, b) of (Num x, Num y) \<Rightarrow> Num (x * y) | _ \<Rightarrow> NaN)"

text \<open>
  The program divides by the constants 100, 1000 and 1000000, and by the total value
  only behind the test \<^verbatim>\<open>total === 0\<close>; a zero divisor (an infinity or \<open>NaN\<close> in
  JavaScript) is outside the idealised numbers and is given as \<open>NaN\<close>.
\<close>

definition divide_jsnum :: "jsnum \<Rightarrow> jsnum \<Rightarrow> jsnum" where
  "divide_jsnum a b =
     (case (a, b) of (Num x, Num y) \<Rightarrow> if y = 0 then NaN else Num (x / y) | _ \<Rightarrow> NaN)"

definition inverse_jsnum :: "jsnum \<Rightarrow> jsnum" where
  "inverse_jsnum a = (case a of Num y \<Rightarrow> if y = 0 then NaN else Num (1 / y) | _ \<Rightarrow> NaN)"

definition less_eq_jsnum :: "jsnum \<Rightarrow> jsnum \<Rightarrow> bool" where
  "less_eq_jsnum a b = (case (a, b) of (Num x, Num y) \<Rightarrow> x \<le> y | _ \<Rightarrow> False)"

definition less_jsnum :: "jsnum \<Rightarrow> jsnum \<Rightarrow> bool" where
  "less_jsnum a b = (case (a, b) of (Num x, Num y) \<Rightarrow> x < y | _ \<Rightarrow> False)"

instance ..

end

text \<open>\<^verbatim>\<open>a === b\<close> on numeric slots: \<open>NaN\<close> is not equal to anything.\<close>

definition strict_eq :: "jsnum \<Rightarrow> jsnum \<Rightarrow> bool" where
  "strict_eq a b =
     (case (a, b) of (Num x, Num y) \<Rightarrow> x = y | (Undefined, Undefined) \<Rightarrow> True | _ \<Rightarrow> False)"

text \<open>\<^verbatim>\<open>Math.min\<close> and \<^verbatim>\<open>Math.max\<close> of two arguments.\<close>

definition Math_min :: "jsnum \<Rightarrow> jsnum \<Rightarrow> jsnum" where
  "Math_min a b = (case (a, b) of (Num x, Num y) \<Rightarrow> Num (min x y) | _ \<Rightarrow> NaN)"

definition Math_max :: "jsnum \<Rightarrow> jsnum \<Rightarrow> jsnum" where
  "Math_max a b = (case (a, b) of (Num x, Num y) \<Rightarrow> Num (max x y) | _ \<Rightarrow> NaN)"


section \<open>Static data and the state object\<close>

record portfolio =
  usdc :: jsnum
  tBills :: jsnum
  bonds :: jsnum
  cash :: jsnum

record params =
  shockMagnitude :: jsnum
  targetReserveRatio :: jsnum
  yieldDistribution :: jsnum

text \<open>
  An entry of \<^verbatim>\<open>PRESETS\<close>; the fields carry the suffix \<open>_of\<close> because the
  parameter record already has their names.
\<close>

record preset =
  shockMagnitude_of :: real
  targetReserveRatio_of :: real
  yieldDistribution_of :: real
  label :: string

text \<open>
  An entry \<^verbatim>\<open>{ step: ..., value: ... }\<close> of \<^verbatim>\<open>state.history\<close>; its field
  \<^verbatim>\<open>value\<close> is \<open>value_h\<close> here.
\<close>

record hist_entry =
  step :: nat
  value_h :: jsnum

text \<open>
  A line of \<^verbatim>\<open>state.logs\<close>. The program builds each line from a template and
  \<^verbatim>\<open>toFixed\<close> renderings of numbers; the model keeps the template (the
  constructor) and the values put into it, in the order of the template, unrendered.
  \<^item> \<open>SimulationReset\<close>: \<^verbatim>\<open>Simulation reset. Ready for T+0.\<close>
  \<^item> \<open>MarketShock m k\<close>: \<^verbatim>\<open>[T+1] Market shock: Bonds dropped by m% (-$kk)\<close>
  \<^item> \<open>RebalanceTriggered k\<close>: \<^verbatim>\<open>[T+2] Rebalance triggered: Sold $kk Bonds, bought T-Bills\<close>
  \<^item> \<open>RebalanceHealthy r\<close>: \<^verbatim>\<open>[T+2] Rebalance check: Ratio healthy (r%), no action needed\<close>
  \<^item> \<open>Distribution k y\<close>: \<^verbatim>\<open>[T+3] Distribution: Paid out $kk (y%) yield\<close>
  \<^item> \<open>PresetLoaded l\<close>: \<^verbatim>\<open>Preset loaded: l\<close>, with \<open>None\<close> for a label that is
    \<^verbatim>\<open>undefined\<close>.
\<close>

datatype logmsg =
  SimulationReset
  | MarketShock jsnum jsnum
  | RebalanceTriggered jsnum
  | RebalanceHealthy jsnum
  | Distribution jsnum jsnum
  | PresetLoaded "string option"

text \<open>
  The browser's table of active timers holds, of the timers the program starts, the two
  whose callbacks reach the engine: the repeating timer of \<^verbatim>\<open>startPlaySequence\<close>,
  which calls \<^verbatim>\<open>nextStep\<close>, and the one-shot timer of \<^verbatim>\<open>playSimulation\<close>, which
  calls \<^verbatim>\<open>startPlaySequence\<close>. The other one-shot timers of the file only repaint the
  page. Timer ids are opaque positive integers; the model hands out 1, 2, 3, ...
\<close>

datatype timer_callback = Interval_nextStep | Timeout_startPlaySequence

text \<open>
  The global \<^verbatim>\<open>state\<close> object, followed by what the engine reads and writes in the
  browser: the timer table and the \<^verbatim>\<open>disabled\<close> flags that \<^verbatim>\<open>renderControls\<close> sets
  on the play and pause buttons (a disabled button sends no click). The field
  \<^verbatim>\<open>state.initialPortfolio\<close> is the constant \<open>initialPortfolio\<close> below: no
  statement of the file assigns to it or to one of its fields, and every read copies
  it. An array is a list of slots, \<open>None\<close> for a hole.
\<close>

record state =
  currentStep :: nat
  isPlaying :: bool
  hasEverPlayed :: bool
  timerId :: "nat option"
  params :: params
  portfolio :: portfolio
  history :: "hist_entry option list"
  logs :: "logmsg list"
  timers :: "(nat \<times> timer_callback) list"
  nextTimer :: nat
  btnPlay_disabled :: bool
  btnPause_disabled :: bool

definition initialPortfolio :: portfolio where
  "initialPortfolio =
     \<lparr>usdc = Num 400000, tBills = Num 300000, bonds = Num 200000, cash = Num 100000\<rparr>"

text \<open>
  \<^verbatim>\<open>PRESETS[presetName]\<close>. \<^verbatim>\<open>PRESETS\<close> is an object literal, so a name it does not
  define itself is looked up in \<^verbatim>\<open>Object.prototype\<close>: the twelve names below give
  a function (or, for \<^verbatim>\<open>__proto__\<close>, the prototype object), which is truthy and has
  none of the properties of a preset. Every other name gives \<^verbatim>\<open>undefined\<close>.
\<close>

datatype property = NoProperty | OwnPreset preset | PrototypeMember

definition Object_prototype_names :: "string list" where
  "Object_prototype_names =
     [''constructor'', ''__defineGetter__'', ''__defineSetter__'', ''hasOwnProperty'',
      ''__lookupGetter__'', ''__lookupSetter__'', ''isPrototypeOf'',
      ''propertyIsEnumerable'', ''toString'', ''valueOf'', ''__proto__'',
      ''toLocaleString'']"

definition PRESETS :: "string \<Rightarrow> property" where
  "PRESETS presetName =
     (if presetName = ''conservative'' then
        OwnPreset \<lparr>shockMagnitude_of = 10, targetReserveRatio_of = 130,
                   yieldDistribution_of = 2, label = ''Conservative''\<rparr>
      else if presetName = ''balanced'' then
        OwnPreset \<lparr>shockMagnitude_of = 20, targetReserveRatio_of = 110,
                   yieldDistribution_of = 5, label = ''Balanced''\<rparr>
      else if presetName = ''aggressive'' then
        OwnPreset \<lparr>shockMagnitude_of = 35, targetReserveRatio_of = 105,
                   yieldDistribution_of = 8, label = ''Aggressive''\<rparr>
      else if presetName \<in> set Object_prototype_names then PrototypeMember
      else NoProperty)"

text \<open>Reading a numeric property, or the label, of what the lookup gave.\<close>

definition property_num :: "(preset \<Rightarrow> real) \<Rightarrow> property \<Rightarrow> jsnum" where
  "property_num field v = (case v of OwnPreset pr \<Rightarrow> Num (field pr) | _ \<Rightarrow> Undefined)"

definition property_label :: "property \<Rightarrow> string option" where
  "property_label v = (case v of OwnPreset pr \<Rightarrow> Some (label pr) | _ \<Rightarrow> None)"

text \<open>The \<^verbatim>\<open>state\<close> literal of the file, in a browser that has started no timer.\<close>

definition state0 :: state where
  "state0 =
     \<lparr>currentStep = 0, isPlaying = False, hasEverPlayed = False, timerId = None,
      params = \<lparr>shockMagnitude = Num 20, targetReserveRatio = Num 110,
                yieldDistribution = Num 5\<rparr>,
      portfolio = \<lparr>usdc = Num 0, tBills = Num 0, bonds = Num 0, cash = Num 0\<rparr>,
      history = [], logs = [], timers = [], nextTimer = 1,
      btnPlay_disabled = False, btnPause_disabled = False\<rparr>"

section \<open>Calculation helpers\<close>

definition getTotalValue :: "portfolio \<Rightarrow> jsnum" where
  "getTotalValue p = usdc p + tBills p + bonds p + cash p"

definition getReserveRatio :: "portfolio \<Rightarrow> jsnum" where
  "getReserveRatio p = (let liabilities = Num 1000000 in (getTotalValue p / liabilities) * Num 100)"

definition calculateRiskScore :: "portfolio \<Rightarrow> params \<Rightarrow> jsnum" where
  "calculateRiskScore p prm =
     (let total = getTotalValue p in
      if strict_eq total (Num 0) then Num 0
      else
        let wBonds = bonds p / total;
            wCash = cash p / total;
            wBills = tBills p / total;
            wUsdc = usdc p / total;
            compositionRisk = (wBonds * Num 80) + (wBills * Num 10) + (wUsdc * Num 5) + (wCash * Num 0);
            shockFactor = Num 1 + (shockMagnitude prm / Num 100);
            finalRisk = compositionRisk * shockFactor
        in Math_min (Num 100) (Math_max (Num 0) finalRisk))"

definition logEvent :: "logmsg \<Rightarrow> state \<Rightarrow> state" where
  "logEvent msg s = s\<lparr>logs := logs s @ [msg]\<rparr>"

section \<open>Step definitions\<close>

text \<open>
  The \<^verbatim>\<open>apply\<close> function of each entry of \<^verbatim>\<open>SIMULATION_STEPS\<close>. It reads the
  parameters from the state, appends its line to the log of the state through
  \<^verbatim>\<open>logEvent\<close>, and returns a new portfolio: the model returns the portfolio together
  with the state after the side effect.
\<close>

text \<open>The first entry takes the state alone; a second argument is ignored.\<close>

definition INITIAL_apply :: "state \<Rightarrow> portfolio \<Rightarrow> portfolio \<times> state" where
  "INITIAL_apply s currentPortfolio = (initialPortfolio, s)"

definition SHOCK_apply :: "state \<Rightarrow> portfolio \<Rightarrow> portfolio \<times> state" where
  "SHOCK_apply s currentPortfolio =
     (let p = currentPortfolio;
          shockFactor = Num 1 - (shockMagnitude (params s) / Num 100);
          oldBonds = bonds p;
          p = p\<lparr>bonds := bonds p * shockFactor\<rparr>;
          s = logEvent (MarketShock (shockMagnitude (params s)) ((oldBonds - bonds p) / Num 1000)) s
      in (p, s))"

definition REBALANCE_apply :: "state \<Rightarrow> portfolio \<Rightarrow> portfolio \<times> state" where
  "REBALANCE_apply s currentPortfolio =
     (let p = currentPortfolio;
          total = getTotalValue p;
          ratio = (total / Num 1000000) * Num 100
      in if ratio < targetReserveRatio (params s) then
           let sellAmount = bonds p * Num (1 / 2);
               p = p\<lparr>bonds := bonds p - sellAmount\<rparr>;
               p = p\<lparr>tBills := tBills p + sellAmount\<rparr>;
               s = logEvent (RebalanceTriggered (sellAmount / Num 1000)) s
           in (p, s)
         else
           let s = logEvent (RebalanceHealthy ratio) s
           in (p, s))"

definition DISTRIBUTION_apply :: "state \<Rightarrow> portfolio \<Rightarrow> portfolio \<times> state" where
  "DISTRIBUTION_apply s currentPortfolio =
     (let p = currentPortfolio;
          total = getTotalValue p;
          distAmount = total * (yieldDistribution (params s) / Num 100);
          p = (if cash p \<ge> distAmount then p\<lparr>cash := cash p - distAmount\<rparr>
               else
                 let remainder = distAmount - cash p;
                     p = p\<lparr>cash := Num 0\<rparr>
                 in p\<lparr>tBills := tBills p - remainder\<rparr>);
          s = logEvent (Distribution (distAmount / Num 1000) (yieldDistribution (params s))) s
      in (p, s))"

definition SIMULATION_STEPS :: "(state \<Rightarrow> portfolio \<Rightarrow> portfolio \<times> state) list" where
  "SIMULATION_STEPS = [INITIAL_apply, SHOCK_apply, REBALANCE_apply, DISTRIBUTION_apply]"

section \<open>The engine\<close>

text \<open>
  Of the rendering functions only \<^verbatim>\<open>renderControls\<close> leaves a trace in the model: it
  disables the play button while the simulation plays and the pause button while it
  does not. \<^verbatim>\<open>renderAll\<close> calls it among the other painters.
\<close>

definition renderControls :: "state \<Rightarrow> state" where
  "renderControls s =
     (if isPlaying s then s\<lparr>btnPlay_disabled := True, btnPause_disabled := False\<rparr>
      else s\<lparr>btnPlay_disabled := False, btnPause_disabled := True\<rparr>)"

definition renderAll :: "state \<Rightarrow> state" where
  "renderAll s = renderControls s"

text \<open>
  \<^verbatim>\<open>setInterval(() => { nextStep(); }, 2000)\<close> and
  \<^verbatim>\<open>setTimeout(() => { startPlaySequence(); }, 100)\<close>: a new entry of the timer table
  under a fresh id, which is returned. \<^verbatim>\<open>clearInterval\<close> removes the entry of an id.
\<close>

definition setInterval :: "state \<Rightarrow> nat \<times> state" where
  "setInterval s =
     (nextTimer s,
      s\<lparr>timers := timers s @ [(nextTimer s, Interval_nextStep)], nextTimer := nextTimer s + 1\<rparr>)"

definition setTimeout :: "state \<Rightarrow> nat \<times> state" where
  "setTimeout s =
     (nextTimer s,
      s\<lparr>timers := timers s @ [(nextTimer s, Timeout_startPlaySequence)],
        nextTimer := nextTimer s + 1\<rparr>)"

definition clearInterval :: "nat \<Rightarrow> state \<Rightarrow> state" where
  "clearInterval t s = s\<lparr>timers := filter (\<lambda>e. fst e \<noteq> t) (timers s)\<rparr>"

text \<open>\<^verbatim>\<open>if (state.timerId)\<close>: \<^verbatim>\<open>null\<close> and 0 are falsy.\<close>

definition stopSimulation :: "state \<Rightarrow> state" where
  "stopSimulation s =
     (let s = s\<lparr>isPlaying := False\<rparr>;
          s = (case timerId s of
                 None \<Rightarrow> s
               | Some t \<Rightarrow> if t = 0 then s else (clearInterval t s)\<lparr>timerId := None\<rparr>)
      in renderControls s)"

definition resetSimulation :: "state \<Rightarrow> state" where
  "resetSimulation s =
     (let s = stopSimulation s;
          s = s\<lparr>currentStep := 0\<rparr>;
          s = s\<lparr>portfolio := initialPortfolio\<rparr>;
          s = s\<lparr>history := [Some \<lparr>step = 0, value_h = getTotalValue (portfolio s)\<rparr>]\<rparr>;
          s = s\<lparr>logs := []\<rparr>;
          s = logEvent SimulationReset s
      in renderAll s)"

definition init :: "state \<Rightarrow> state" where
  "init s = resetSimulation s"

text \<open>\<^verbatim>\<open>a[i] = v\<close> on an array: an index past the end extends the array, leaving holes.\<close>

definition array_set :: "'a option list \<Rightarrow> nat \<Rightarrow> 'a \<Rightarrow> 'a option list" where
  "array_set a i v =
     (if i < length a then a[i := Some v] else a @ replicate (i - length a) None @ [Some v])"

text \<open>\<^verbatim>\<open>SIMULATION_STEPS[stepIndex]\<close> is \<^verbatim>\<open>undefined\<close> past the end of the table.\<close>

definition executeStep :: "nat \<Rightarrow> state \<Rightarrow> state" where
  "executeStep stepIndex s =
     (if \<not> stepIndex < length SIMULATION_STEPS then s
      else
        let s = (if stepIndex = 0 then s\<lparr>portfolio := initialPortfolio\<rparr>
                 else
                   let (p, s) = (SIMULATION_STEPS ! stepIndex) s (portfolio s)
                   in s\<lparr>portfolio := p\<rparr>);
            total = getTotalValue (portfolio s)
        in s\<lparr>history := array_set (history s) stepIndex \<lparr>step = stepIndex, value_h = total\<rparr>\<rparr>)"

definition nextStep :: "state \<Rightarrow> state" where
  "nextStep s =
     (if currentStep s < length SIMULATION_STEPS - 1 then
        let s = s\<lparr>currentStep := currentStep s + 1\<rparr>;
            s = executeStep (currentStep s) s;
            s = renderAll s
        in if currentStep s = length SIMULATION_STEPS - 1 then stopSimulation s else s
      else stopSimulation s)"

definition startPlaySequence :: "state \<Rightarrow> state" where
  "startPlaySequence s =
     (let s = s\<lparr>isPlaying := True\<rparr>;
          s = (if \<not> hasEverPlayed s then s\<lparr>hasEverPlayed := True\<rparr> else s);
          s = renderControls s;
          (t, s) = setInterval s
      in s\<lparr>timerId := Some t\<rparr>)"

definition playSimulation :: "state \<Rightarrow> state" where
  "playSimulation s =
     (if currentStep s = length SIMULATION_STEPS - 1 then
        let s = resetSimulation s
        in snd (setTimeout s)
      else startPlaySequence s)"

definition applyPreset :: "string \<Rightarrow> state \<Rightarrow> state" where
  "applyPreset presetName s =
     (let preset = PRESETS presetName
      in if preset = NoProperty then s
         else
           let s = s\<lparr>params := (params s)\<lparr>shockMagnitude := property_num shockMagnitude_of preset\<rparr>\<rparr>;
               s = s\<lparr>params := (params s)\<lparr>targetReserveRatio := property_num targetReserveRatio_of preset\<rparr>\<rparr>;
               s = s\<lparr>params := (params s)\<lparr>yieldDistribution := property_num yieldDistribution_of preset\<rparr>\<rparr>;
               s = resetSimulation s
           in logEvent (PresetLoaded (property_label preset)) s)"

section \<open>Events\<close>

text \<open>
  What \<^verbatim>\<open>setupEventListeners\<close> and the timers wire to the engine: a click on the
  play, pause or reset button or on a preset button (with its \<^verbatim>\<open>data-preset\<close>), an
  input on a slider (with the integer \<^verbatim>\<open>parseInt\<close> reads), a firing of a repeating
  timer and the firing of a one-shot timer, which leaves the table as it fires.
\<close>

datatype event =
  ClickPlay
  | ClickPause
  | ClickReset
  | ClickPreset string
  | SlideShock int
  | SlideReserve int
  | SlideDist int
  | IntervalFires nat
  | TimeoutFires nat

definition enabled :: "event \<Rightarrow> state \<Rightarrow> bool" where
  "enabled e s =
     (case e of
        ClickPlay \<Rightarrow> \<not> btnPlay_disabled s
      | ClickPause \<Rightarrow> \<not> btnPause_disabled s
      | IntervalFires t \<Rightarrow> (t, Interval_nextStep) \<in> set (timers s)
      | TimeoutFires t \<Rightarrow> (t, Timeout_startPlaySequence) \<in> set (timers s)
      | _ \<Rightarrow> True)"

definition handle :: "event \<Rightarrow> state \<Rightarrow> state" where
  "handle e s =
     (case e of
        ClickPlay \<Rightarrow> playSimulation s
      | ClickPause \<Rightarrow> stopSimulation s
      | ClickReset \<Rightarrow> resetSimulation s
      | ClickPreset presetName \<Rightarrow> applyPreset presetName s
      | SlideShock v \<Rightarrow> s\<lparr>params := (params s)\<lparr>shockMagnitude := Num (of_int v)\<rparr>\<rparr>
      | SlideReserve v \<Rightarrow> s\<lparr>params := (params s)\<lparr>targetReserveRatio := Num (of_int v)\<rparr>\<rparr>
      | SlideDist v \<Rightarrow> s\<lparr>params := (params s)\<lparr>yieldDistribution := Num (of_int v)\<rparr>\<rparr>
      | IntervalFires t \<Rightarrow> nextStep s
      | TimeoutFires t \<Rightarrow> startPlaySequence (s\<lparr>timers := filter (\<lambda>e. fst e \<noteq> t) (timers s)\<rparr>))"

text \<open>
  A run of the page: the events in order, each one possible in the state it meets
  (\<open>None\<close> when one is not).
\<close>

primrec run :: "event list \<Rightarrow> state \<Rightarrow> state option" where
  "run [] s = Some s"
| "run (e # es) s = (if enabled e s then run es (handle e s) else None)"

text \<open>The ids of the repeating timers that are live, each calling \<^verbatim>\<open>nextStep\<close>.\<close>

definition live_intervals :: "state \<Rightarrow> nat list" where
  "live_intervals s = map fst (filter (\<lambda>e. snd e = Interval_nextStep) (timers s))"

section \<open>Predicates and the risk score in the words of the specification\<close>

text \<open>A slot that holds a number that is not negative; a portfolio of four such slots.\<close>

definition nonneg :: "jsnum \<Rightarrow> bool" where
  "nonneg a = (case a of Num x \<Rightarrow> 0 \<le> x | _ \<Rightarrow> False)"

definition nonneg_portfolio :: "portfolio \<Rightarrow> bool" where
  "nonneg_portfolio p =
     (nonneg (usdc p) \<and> nonneg (tBills p) \<and> nonneg (bonds p) \<and> nonneg (cash p))"

text \<open>
  The risk score as the specification words it, on the amounts \<open>u\<close> (USDC), \<open>t\<close>
  (T-Bills), \<open>b\<close> (bonds), \<open>c\<close> (cash) and the shock magnitude \<open>m\<close>: 0 when the
  total value is 0; otherwise the weighted composition risk
  \<open>80 * bondsWeight + 10 * tBillsWeight + 5 * usdcWeight + 0 * cashWeight\<close>, times the
  shock factor \<open>1 + m / 100\<close>, clamped to the interval from 0 to 100.
\<close>

definition riskScore_spec :: "real \<Rightarrow> real \<Rightarrow> real \<Rightarrow> real \<Rightarrow> real \<Rightarrow> real" where
  "riskScore_spec u t b c m =
     (let total = u + t + b + c in
      if total = 0 then 0
      else min 100 (max 0 ((80 * (b / total) + 10 * (t / total) + 5 * (u / total) + 0 * (c / total))
                           * (1 + m / 100))))"

section \<open>Double-precision arithmetic\<close>

text \<open>
  Rounding a real to the nearest double (IEEE 754 binary64, ties to the even
  significand). \<open>normalise\<close> doubles or halves the magnitude until it lies between
  \<open>2 ^ 52\<close> and \<open>2 ^ 53\<close>, counting the exponent; there the doubles are the
  integers, and \<open>round_half_even\<close> picks the nearest one. The 2200 steps reach every
  magnitude a normal double has; overflow to an infinity and the coarser grid of the
  subnormal numbers are not modelled.
\<close>

definition round_half_even :: "real \<Rightarrow> int" where
  "round_half_even a =
     (let f = \<lfloor>a\<rfloor>; d = a - of_int f
      in if d < 1 / 2 then f else if 1 / 2 < d then f + 1 else if even f then f else f + 1)"

primrec normalise :: "nat \<Rightarrow> real \<Rightarrow> int \<Rightarrow> real \<times> int" where
  "normalise 0 a e = (a, e)"
| "normalise (Suc n) a e =
     (if 2 ^ 53 \<le> a then normalise n (a / 2) (e + 1)
      else if a < 2 ^ 52 then normalise n (a * 2) (e - 1)
      else (a, e))"

definition pow2 :: "int \<Rightarrow> real" where
  "pow2 e = (if 0 \<le> e then 2 ^ nat e else 1 / 2 ^ nat (- e))"

definition binary64 :: "real \<Rightarrow> real" where
  "binary64 x =
     (if x = 0 then 0
      else let (a, e) = normalise 2200 \<bar>x\<bar> 0
           in sgn x * of_int (round_half_even a) * pow2 e)"

text \<open>The four operations of JavaScript on numeric slots: the exact result, rounded.\<close>

definition round64 :: "jsnum \<Rightarrow> jsnum" where
  "round64 a = (case a of Num x \<Rightarrow> Num (binary64 x) | _ \<Rightarrow> NaN)"

definition add64 :: "jsnum \<Rightarrow> jsnum \<Rightarrow> jsnum" where
  "add64 a b = round64 (a + b)"

definition sub64 :: "jsnum \<Rightarrow> jsnum \<Rightarrow> jsnum" where
  "sub64 a b = round64 (a - b)"

definition mul64 :: "jsnum \<Rightarrow> jsnum \<Rightarrow> jsnum" where
  "mul64 a b = round64 (a * b)"

definition div64 :: "jsnum \<Rightarrow> jsnum \<Rightarrow> jsnum" where
  "div64 a b = round64 (a / b)"

text \<open>
  \<^verbatim>\<open>getTotalValue\<close> and the \<^verbatim>\<open>apply\<close> functions of SHOCK and REBALANCE once more,
  statement by statement as above, with the operations of doubles. The constants 1,
  100, 1000, 1000000 and 0.5 are doubles.
\<close>

definition getTotalValue64 :: "portfolio \<Rightarrow> jsnum" where
  "getTotalValue64 p = add64 (add64 (add64 (usdc p) (tBills p)) (bonds p)) (cash p)"

definition SHOCK_apply64 :: "state \<Rightarrow> portfolio \<Rightarrow> portfolio \<times> state" where
  "SHOCK_apply64 s currentPortfolio =
     (let p = currentPortfolio;
          shockFactor = sub64 (Num 1) (div64 (shockMagnitude (params s)) (Num 100));
          oldBonds = bonds p;
          p = p\<lparr>bonds := mul64 (bonds p) shockFactor\<rparr>;
          s = logEvent (MarketShock (shockMagnitude (params s))
                (div64 (sub64 oldBonds (bonds p)) (Num 1000))) s
      in (p, s))"

definition REBALANCE_apply64 :: "state \<Rightarrow> portfolio \<Rightarrow> portfolio \<times> state" where
  "REBALANCE_apply64 s currentPortfolio =
     (let p = currentPortfolio;
          total = getTotalValue64 p;
          ratio = mul64 (div64 total (Num 1000000)) (Num 100)
      in if ratio < targetReserveRatio (params s) then
           let sellAmount = mul64 (bonds p) (Num (1 / 2));
               p = p\<lparr>bonds := sub64 (bonds p) sellAmount\<rparr>;
               p = p\<lparr>tBills := add64 (tBills p) sellAmount\<rparr>;
               s = logEvent (RebalanceTriggered (div64 sellAmount (Num 1000))) s
           in (p, s)
         else
           let s = logEvent (RebalanceHealthy ratio) s
           in (p, s))"

section \<open>Arithmetic on numbers\<close>

lemma jsnum_arith [simp]:
  "Num x + Num y = Num (x + y)"
  "Num x - Num y = Num (x - y)"
  "Num x * Num y = Num (x * y)"
  "Num x / Num y = (if y = 0 then NaN else Num (x / y))"
  by (simp_all add: plus_jsnum_def minus_jsnum_def times_jsnum_def divide_jsnum_def)

lemma jsnum_compare [simp]:
  "(Num x \<le> Num y) = (x \<le> y)"
  "(Num x < Num y) = (x < y)"
  "strict_eq (Num x) (Num y) = (x = y)"
  "Math_min (Num x) (Num y) = Num (min x y)"
  "Math_max (Num x) (Num y) = Num (max x y)"
  by (simp_all add: less_eq_jsnum_def less_jsnum_def strict_eq_def Math_min_def Math_max_def)

lemma nonneg_simps [simp]:
  "nonneg (Num x) = (0 \<le> x)"
  "nonneg NaN = False"
  "nonneg Undefined = False"
  by (simp_all add: nonneg_def)

lemma params_logEvent [simp]: "params (logEvent msg s) = params s"
  by (simp add: logEvent_def)

lemmas step_defs =
  SHOCK_apply_def REBALANCE_apply_def DISTRIBUTION_apply_def INITIAL_apply_def
  getTotalValue_def initialPortfolio_def logEvent_def Let_def

lemmas control_defs =
  resetSimulation_def stopSimulation_def nextStep_def executeStep_def renderAll_def
  renderControls_def clearInterval_def SIMULATION_STEPS_def array_set_def

section \<open>Rounding to a double\<close>

lemma pow2_powr: "pow2 e = 2 powr (of_int e)"
  by (cases "0 \<le> e") (simp_all add: pow2_def powr_realpow [symmetric] powr_minus divide_inverse)

lemma pow2_pos: "0 < pow2 e"
  by (simp add: pow2_powr)

lemma pow2_succ: "pow2 (e + 1) = 2 * pow2 e"
  by (simp add: pow2_powr powr_add)

lemma pow2_pred: "pow2 (e - 1) = pow2 e / 2"
  by (simp add: pow2_powr powr_diff)

text \<open>Normalising keeps the value \<open>a * 2 ^ e\<close>, and never raises the exponent of a
  magnitude below \<open>2 ^ 53\<close>.\<close>

lemma normalise_value:
  "0 < a \<Longrightarrow> normalise n a e = (a', e') \<Longrightarrow> 0 < a' \<and> a' * pow2 e' = a * pow2 e"
proof (induction n arbitrary: a e)
  case 0
  then show ?case by simp
next
  case (Suc n)
  show ?case
  proof (cases "2 ^ 53 \<le> a")
    case True
    with Suc.prems have "normalise n (a / 2) (e + 1) = (a', e')" by simp
    from Suc.IH [OF _ this] Suc.prems(1) show ?thesis by (simp add: pow2_succ)
  next
    case False
    show ?thesis
    proof (cases "a < 2 ^ 52")
      case True
      with False Suc.prems have "normalise n (a * 2) (e - 1) = (a', e')" by simp
      from Suc.IH [OF _ this] Suc.prems(1) show ?thesis by (simp add: pow2_pred)
    next
      case False
      with \<open>\<not> 2 ^ 53 \<le> a\<close> Suc.prems show ?thesis by simp
    qed
  qed
qed

lemma normalise_small:
  "a < 2 ^ 53 \<Longrightarrow> e \<le> 0 \<Longrightarrow> normalise n a e = (a', e') \<Longrightarrow> e' \<le> 0"
proof (induction n arbitrary: a e)
  case 0
  then show ?case by simp
next
  case (Suc n)
  show ?case
  proof (cases "a < 2 ^ 52")
    case True
    with Suc.prems have eq: "normalise n (a * 2) (e - 1) = (a', e')" by simp
    from True have "a * 2 < 2 ^ 53" by simp
    from Suc.IH [OF this _ eq] Suc.prems(2) show ?thesis by simp
  next
    case False
    with Suc.prems show ?thesis by simp
  qed
qed

lemma round_half_even_nonneg: "0 \<le> a \<Longrightarrow> 0 \<le> round_half_even a"
  by (simp add: round_half_even_def Let_def)

lemma round_half_even_le_int:
  assumes "a \<le> of_int N"
  shows "round_half_even a \<le> N"
proof -
  have f: "\<lfloor>a\<rfloor> \<le> N" using assms by (simp add: floor_le_iff)
  show ?thesis
  proof (cases "\<lfloor>a\<rfloor> = N")
    case True
    with assms have "a - of_int \<lfloor>a\<rfloor> \<le> 0" by simp
    then have "a - of_int \<lfloor>a\<rfloor> < 1 / 2" by simp
    with True show ?thesis by (simp add: round_half_even_def Let_def)
  next
    case False
    with f have "\<lfloor>a\<rfloor> + 1 \<le> N" by simp
    then show ?thesis by (simp add: round_half_even_def Let_def)
  qed
qed

lemma round_half_even_le_double:
  assumes "0 \<le> a"
  shows "of_int (round_half_even a) \<le> 2 * a"
proof (cases "a - of_int \<lfloor>a\<rfloor> < 1 / 2")
  case True
  then have "round_half_even a = \<lfloor>a\<rfloor>" by (simp add: round_half_even_def Let_def)
  moreover have "of_int \<lfloor>a\<rfloor> \<le> a" by (rule of_int_floor_le)
  ultimately show ?thesis using assms by linarith
next
  case False
  then have half: "of_int \<lfloor>a\<rfloor> + 1 / 2 \<le> a" by simp
  have "0 \<le> \<lfloor>a\<rfloor>" using assms by simp
  then have "(0::real) \<le> of_int \<lfloor>a\<rfloor>" by simp
  with half have "of_int \<lfloor>a\<rfloor> + 1 \<le> 2 * a" by linarith
  moreover have "round_half_even a \<le> \<lfloor>a\<rfloor> + 1" by (simp add: round_half_even_def Let_def)
  then have "(of_int (round_half_even a) :: real) \<le> of_int (\<lfloor>a\<rfloor> + 1)"
    by (simp only: of_int_le_iff)
  ultimately show ?thesis by simp
qed

lemma binary64_unfold:
  assumes "0 < x"
  obtains a e where "0 < a" "a * pow2 e = x" "binary64 x = of_int (round_half_even a) * pow2 e"
    "x < 2 ^ 53 \<longrightarrow> e \<le> 0"
proof -
  obtain a e where n: "normalise 2200 \<bar>x\<bar> 0 = (a, e)" by (cases "normalise 2200 \<bar>x\<bar> 0")
  from assms have ax: "\<bar>x\<bar> = x" by simp
  from normalise_value [of x 2200 0 a e] assms n ax
  have a: "0 < a" "a * pow2 e = x" by (simp_all add: pow2_def)
  have b: "binary64 x = of_int (round_half_even a) * pow2 e"
    using assms n by (simp add: binary64_def)
  have c: "x < 2 ^ 53 \<longrightarrow> e \<le> 0"
    using normalise_small [of x 0 2200 a e] n ax by simp
  from a b c show ?thesis by (rule that)
qed

text \<open>Three facts of rounding that the transitions need: a number that is not negative
  rounds to one, rounding at most doubles it, and a number up to 1 rounds to one up to 1.\<close>

lemma binary64_nonneg: "0 \<le> x \<Longrightarrow> 0 \<le> binary64 x"
proof (cases "x = 0")
  case True
  then show ?thesis by (simp add: binary64_def)
next
  case False
  assume "0 \<le> x"
  with False have "0 < x" by simp
  then obtain a e where "0 < a" "binary64 x = of_int (round_half_even a) * pow2 e"
    by (rule binary64_unfold)
  then show ?thesis
    using round_half_even_nonneg [of a] pow2_pos [of e] by simp
qed

lemma binary64_le_double: "0 \<le> x \<Longrightarrow> binary64 x \<le> 2 * x"
proof (cases "x = 0")
  case True
  then show ?thesis by (simp add: binary64_def)
next
  case False
  assume "0 \<le> x"
  with False have "0 < x" by simp
  then obtain a e where a: "0 < a" "a * pow2 e = x"
    "binary64 x = of_int (round_half_even a) * pow2 e"
    by (rule binary64_unfold)
  have "of_int (round_half_even a) * pow2 e \<le> (2 * a) * pow2 e"
    using round_half_even_le_double [of a] a(1) pow2_pos [of e]
    by (intro mult_right_mono) simp_all
  with a show ?thesis by (simp add: mult.assoc)
qed

lemma binary64_le_one: "0 \<le> x \<Longrightarrow> x \<le> 1 \<Longrightarrow> binary64 x \<le> 1"
proof (cases "x = 0")
  case True
  then show ?thesis by (simp add: binary64_def)
next
  case False
  assume "0 \<le> x" "x \<le> 1"
  with False have pos: "0 < x" and small: "x < 2 ^ 53" by simp_all
  from pos obtain a e where a: "0 < a" "a * pow2 e = x"
    "binary64 x = of_int (round_half_even a) * pow2 e" "x < 2 ^ 53 \<longrightarrow> e \<le> 0"
    by (rule binary64_unfold)
  from a(4) small have e: "e \<le> 0" by simp
  define N :: int where "N = 2 ^ nat (- e)"
  have p: "pow2 e * of_int N = 1"
    using e by (cases "e = 0") (simp_all add: pow2_def N_def)
  have "a = a * (pow2 e * of_int N)" using p by simp
  also have "\<dots> = x * of_int N" using a(2) by (simp add: mult.assoc [symmetric])
  also have "\<dots> \<le> of_int N" using \<open>x \<le> 1\<close> by (simp add: N_def mult_left_le_one_le)
  finally have "round_half_even a \<le> N" by (rule round_half_even_le_int)
  then have "(of_int (round_half_even a) :: real) \<le> of_int N" by (simp only: of_int_le_iff)
  then have "of_int (round_half_even a) * pow2 e \<le> of_int N * pow2 e"
    using pow2_pos [of e] by (intro mult_right_mono) simp_all
  with a(3) p show ?thesis by (simp add: mult.commute)
qed

text \<open>A whole number below \<open>2 ^ 53\<close> is a double.\<close>

lemma round_half_even_of_int: "round_half_even (of_int z) = z"
  by (simp add: round_half_even_def)

lemma binary64_whole:
  assumes "x \<in> \<int>" and "0 \<le> x" and "x < 2 ^ 53"
  shows "binary64 x = x"
proof (cases "x = 0")
  case True
  then show ?thesis by (simp add: binary64_def)
next
  case False
  with assms(2) have pos: "0 < x" by simp
  from assms(1) obtain z where z: "x = of_int z" by (rule Ints_cases)
  from pos obtain a e where a: "0 < a" "a * pow2 e = x"
    "binary64 x = of_int (round_half_even a) * pow2 e" "x < 2 ^ 53 \<longrightarrow> e \<le> 0"
    by (rule binary64_unfold)
  from a(4) assms(3) have e: "e \<le> 0" by simp
  define N :: int where "N = 2 ^ nat (- e)"
  have p: "pow2 e * of_int N = 1"
    using e by (cases "e = 0") (simp_all add: pow2_def N_def)
  have "a = a * (pow2 e * of_int N)" using p by simp
  also have "\<dots> = x * of_int N" using a(2) by (simp add: mult.assoc [symmetric])
  also have "\<dots> = of_int (z * N)" using z by simp
  finally have "round_half_even a = z * N" by (simp only: round_half_even_of_int)
  with a(3) have "binary64 x = of_int (z * N) * pow2 e" by simp
  also have "\<dots> = x * (pow2 e * of_int N)" using z by simp
  finally show ?thesis using p by simp
qed

lemma ops64 [simp]:
  "add64 (Num x) (Num y) = Num (binary64 (x + y))"
  "sub64 (Num x) (Num y) = Num (binary64 (x - y))"
  "mul64 (Num x) (Num y) = Num (binary64 (x * y))"
  "y \<noteq> 0 \<Longrightarrow> div64 (Num x) (Num y) = Num (binary64 (x / y))"
  by (simp_all add: add64_def sub64_def mul64_def div64_def round64_def)

text \<open>Evaluating the rounding of a given number.\<close>

lemma normalise_numeral:
  "normalise (numeral k) a e =
     (if 2 ^ 53 \<le> a then normalise (pred_numeral k) (a / 2) (e + 1)
      else if a < 2 ^ 52 then normalise (pred_numeral k) (a * 2) (e - 1)
      else (a, e))"
  by (simp add: numeral_eq_Suc)

lemmas binary64_eval = binary64_def round_half_even_def pow2_def normalise_numeral

text \<open>
  Some roundings: 1 and 200000 are doubles; the double written \<^verbatim>\<open>0.1\<close> is
  \<open>3602879701896397 / 2 ^ 55\<close>; and \<^verbatim>\<open>200000 * (1 - 34 / 100)\<close> is
  \<open>4535485464575999 / 2 ^ 35\<close>, which JavaScript prints as
  \<^verbatim>\<open>131999.99999999997\<close>, where the exact product is 132000.
\<close>

lemma binary64_examples:
  "binary64 1 = 1"
  "binary64 200000 = 200000"
  "binary64 (1 / 10) = 3602879701896397 / 2 ^ 55"
  "binary64 (200000 * binary64 (1 - binary64 (34 / 100))) = 4535485464575999 / 2 ^ 35"
  by (simp_all add: binary64_eval)

text \<open>
  A total of 1150000 against the target ratio 115: the ratio computed in doubles is
  \<^verbatim>\<open>114.99999999999999\<close>, below the target, and REBALANCE sells half of the bonds;
  in exact arithmetic the ratio is 115 and REBALANCE does nothing.
\<close>

lemma REBALANCE_apply64_example:
  "fst (REBALANCE_apply64 (state0\<lparr>params := (params state0)\<lparr>targetReserveRatio := Num 115\<rparr>\<rparr>)
          \<lparr>usdc = Num 400000, tBills = Num 300000, bonds = Num 350000, cash = Num 100000\<rparr>)
     = \<lparr>usdc = Num 400000, tBills = Num 475000, bonds = Num 175000, cash = Num 100000\<rparr>"
  "fst (REBALANCE_apply (state0\<lparr>params := (params state0)\<lparr>targetReserveRatio := Num 115\<rparr>\<rparr>)
          \<lparr>usdc = Num 400000, tBills = Num 300000, bonds = Num 350000, cash = Num 100000\<rparr>)
     = \<lparr>usdc = Num 400000, tBills = Num 300000, bonds = Num 350000, cash = Num 100000\<rparr>"
  by (simp_all add: REBALANCE_apply64_def REBALANCE_apply_def getTotalValue64_def
      getTotalValue_def state0_def logEvent_def Let_def binary64_eval)

section \<open>The scripted scenario\<close>

text \<open>
  Claim C1. From the initial portfolio (usdc 400000, tBills 300000, bonds 200000, cash
  100000) and the parameters shockMagnitude 20, targetReserveRatio 110, yieldDistribution
  5, the transitions SHOCK, REBALANCE and DISTRIBUTION in this order give: after SHOCK
  bonds 160000 and total 960000; after REBALANCE bonds 80000, tBills 380000 and total
  960000; after DISTRIBUTION cash 52000, tBills 380000 and total 912000. The rest of the
  state \<open>s\<close> is arbitrary.
\<close>

theorem scenario_shock_rebalance_distribution:
  "(let s0 = s\<lparr>params := \<lparr>shockMagnitude = Num 20, targetReserveRatio = Num 110,
                            yieldDistribution = Num 5\<rparr>\<rparr>;
        (p1, s1) = SHOCK_apply s0 initialPortfolio;
        (p2, s2) = REBALANCE_apply s1 p1;
        (p3, s3) = DISTRIBUTION_apply s2 p2
    in bonds p1 = Num 160000 \<and> getTotalValue p1 = Num 960000
       \<and> bonds p2 = Num 80000 \<and> tBills p2 = Num 380000 \<and> getTotalValue p2 = Num 960000
       \<and> cash p3 = Num 52000 \<and> tBills p3 = Num 380000 \<and> getTotalValue p3 = Num 912000)"
  by (simp add: SHOCK_apply_def REBALANCE_apply_def DISTRIBUTION_apply_def initialPortfolio_def
      getTotalValue_def Let_def)

text \<open>
  The same figures through the engine: the page is loaded, play is clicked and the
  repeating timer fires three times.
\<close>

lemma scenario_through_engine:
  "map_option (\<lambda>s. (currentStep s, portfolio s, history s))
     (run [ClickPlay, IntervalFires 1, IntervalFires 1, IntervalFires 1] (init state0))
   = Some (3,
       \<lparr>usdc = Num 400000, tBills = Num 380000, bonds = Num 80000, cash = Num 52000\<rparr>,
       [Some \<lparr>step = 0, value_h = Num 1000000\<rparr>, Some \<lparr>step = 1, value_h = Num 960000\<rparr>,
        Some \<lparr>step = 2, value_h = Num 960000\<rparr>, Some \<lparr>step = 3, value_h = Num 912000\<rparr>])"
  by (simp add: step_defs control_defs run.simps enabled_def handle_def init_def state0_def
      playSimulation_def startPlaySequence_def setInterval_def setTimeout_def)

section \<open>The risk score\<close>

lemma calculateRiskScore_Num:
  "calculateRiskScore \<lparr>usdc = Num u, tBills = Num t, bonds = Num b, cash = Num c\<rparr>
       \<lparr>shockMagnitude = Num m, targetReserveRatio = r, yieldDistribution = y\<rparr>
     = Num (riskScore_spec u t b c m)"
  by (simp add: calculateRiskScore_def riskScore_spec_def getTotalValue_def Let_def algebra_simps)

text \<open>
  Claim C2. For every portfolio and every shock magnitude that are numbers,
  \<open>calculateRiskScore\<close> is the risk score of the specification: 0 when the total value is
  0, otherwise \<open>80 * (bonds / total) + 10 * (tBills / total) + 5 * (usdc / total)
  + 0 * (cash / total)\<close> times \<open>1 + shockMagnitude / 100\<close>, clamped to [0, 100]; the
  score lies between 0 and 100; and a portfolio whose total value is 0 has the score 0
  under any parameters whatever, numbers or not.
\<close>

theorem calculateRiskScore_formula:
  "calculateRiskScore \<lparr>usdc = Num u, tBills = Num t, bonds = Num b, cash = Num c\<rparr>
       \<lparr>shockMagnitude = Num m, targetReserveRatio = r, yieldDistribution = y\<rparr>
     = Num (riskScore_spec u t b c m)
   \<and> 0 \<le> riskScore_spec u t b c m \<and> riskScore_spec u t b c m \<le> 100
   \<and> calculateRiskScore
         \<lparr>usdc = Num u, tBills = Num t, bonds = Num b, cash = Num (- (u + t + b))\<rparr> prm
     = Num 0"
  by (simp add: calculateRiskScore_def riskScore_spec_def getTotalValue_def Let_def algebra_simps)

lemma clamp_mono: "(x::real) \<le> y \<Longrightarrow> min 100 (max 0 x) \<le> min 100 (max 0 y)"
  by (simp add: min_def max_def)

text \<open>
  The score of the specification does not decrease with the shock magnitude as long as
  the shock factor \<open>1 + m / 100\<close> is not negative: a composition risk that is not
  negative is multiplied by a larger factor, and a negative one gives a product that
  is clamped to 0.
\<close>

lemma riskScore_spec_mono:
  assumes le: "m1 \<le> m2"
    and m1: "- 100 \<le> m1"
  shows "riskScore_spec u t b c m1 \<le> riskScore_spec u t b c m2"
proof (cases "u + t + b + c = 0")
  case True
  then show ?thesis by (simp add: riskScore_spec_def)
next
  case total: False
  define k where
    "k = 80 * (b / (u + t + b + c)) + 10 * (t / (u + t + b + c))
         + 5 * (u / (u + t + b + c)) + 0 * (c / (u + t + b + c))"
  have eq: "riskScore_spec u t b c m = min 100 (max 0 (k * (1 + m / 100)))" for m
    using total by (simp add: riskScore_spec_def k_def Let_def)
  show ?thesis
  proof (cases "0 \<le> k")
    case True
    have "1 + m1 / 100 \<le> 1 + m2 / 100" using le by simp
    then have "k * (1 + m1 / 100) \<le> k * (1 + m2 / 100)"
      using True by (rule mult_left_mono)
    then show ?thesis unfolding eq by (rule clamp_mono)
  next
    case False
    then have k: "k \<le> 0" by simp
    from le m1 have m2: "- 100 \<le> m2" by simp
    have "k * (1 + m1 / 100) \<le> 0" "k * (1 + m2 / 100) \<le> 0"
      using k m1 m2 by (simp_all add: mult_nonpos_nonneg)
    then show ?thesis unfolding eq by simp
  qed
qed

text \<open>
  Claim C7. For every portfolio of numbers, \<open>calculateRiskScore\<close> is non-decreasing in
  the shock magnitude over its range, 0 to 100: if \<open>0 \<le> m1 \<le> m2 \<le> 100\<close>, the score
  at \<open>m1\<close> is at most the score at \<open>m2\<close>, the portfolio and the other parameters
  being the same.
\<close>

theorem calculateRiskScore_mono:
  assumes "0 \<le> m1" and "m1 \<le> m2" and "m2 \<le> 100"
  shows "calculateRiskScore \<lparr>usdc = Num u, tBills = Num t, bonds = Num b, cash = Num c\<rparr>
             \<lparr>shockMagnitude = Num m1, targetReserveRatio = r, yieldDistribution = y\<rparr>
         \<le> calculateRiskScore \<lparr>usdc = Num u, tBills = Num t, bonds = Num b, cash = Num c\<rparr>
             \<lparr>shockMagnitude = Num m2, targetReserveRatio = r, yieldDistribution = y\<rparr>"
proof -
  from assms(1) have "- 100 \<le> m1" by simp
  with assms(2) have "riskScore_spec u t b c m1 \<le> riskScore_spec u t b c m2"
    by (rule riskScore_spec_mono)
  then show ?thesis by (simp add: calculateRiskScore_Num)
qed

text \<open>
  Claim C7 on the initial portfolio, between the shock magnitudes 20 and 35: the scores
  are 25.2 and 28.35.
\<close>

theorem calculateRiskScore_mono_witness:
  "(0 :: real) \<le> 20 \<and> (20 :: real) \<le> 35 \<and> (35 :: real) \<le> 100
   \<and> calculateRiskScore initialPortfolio
         \<lparr>shockMagnitude = Num 20, targetReserveRatio = Num 110, yieldDistribution = Num 5\<rparr>
       \<le> calculateRiskScore initialPortfolio
         \<lparr>shockMagnitude = Num 35, targetReserveRatio = Num 110, yieldDistribution = Num 5\<rparr>"
  using calculateRiskScore_mono [of 20 35 400000 300000 200000 100000 "Num 110" "Num 5"]
  by (simp add: initialPortfolio_def)

section \<open>The transitions\<close>

text \<open>
  Claim C3. In the DISTRIBUTION transition the resulting cash is a number that is not
  negative, for every state and every portfolio, whatever their slots hold. On numbers,
  with the payout \<open>distAmount = totalValue * (yieldDistribution / 100)\<close>: if cash is at
  least the payout, the payout is taken from cash; otherwise cash becomes exactly 0 and
  the shortfall \<open>distAmount - cash\<close> is subtracted from tBills. From the initial portfolio
  with yieldDistribution 100 the result has cash 0 and tBills -600000.
\<close>

theorem DISTRIBUTION_cash_first:
  "nonneg (cash (fst (DISTRIBUTION_apply s p)))
   \<and> fst (DISTRIBUTION_apply (s\<lparr>params := (params s)\<lparr>yieldDistribution := Num y\<rparr>\<rparr>)
            \<lparr>usdc = Num u, tBills = Num t, bonds = Num b, cash = Num c\<rparr>)
       = (let distAmount = (u + t + b + c) * (y / 100) in
          if c \<ge> distAmount
          then \<lparr>usdc = Num u, tBills = Num t, bonds = Num b, cash = Num (c - distAmount)\<rparr>
          else \<lparr>usdc = Num u, tBills = Num (t - (distAmount - c)), bonds = Num b, cash = Num 0\<rparr>)
   \<and> fst (DISTRIBUTION_apply (s\<lparr>params := (params s)\<lparr>yieldDistribution := Num 100\<rparr>\<rparr>)
            initialPortfolio)
       = \<lparr>usdc = Num 400000, tBills = Num (- 600000), bonds = Num 200000, cash = Num 0\<rparr>"
proof (intro conjI)
  show "nonneg (cash (fst (DISTRIBUTION_apply s p)))"
    by (cases "cash p"; cases "getTotalValue p * (yieldDistribution (params s) / Num 100)")
       (simp_all add: DISTRIBUTION_apply_def Let_def less_eq_jsnum_def)
next
  show "fst (DISTRIBUTION_apply (s\<lparr>params := (params s)\<lparr>yieldDistribution := Num y\<rparr>\<rparr>)
            \<lparr>usdc = Num u, tBills = Num t, bonds = Num b, cash = Num c\<rparr>)
       = (let distAmount = (u + t + b + c) * (y / 100) in
          if c \<ge> distAmount
          then \<lparr>usdc = Num u, tBills = Num t, bonds = Num b, cash = Num (c - distAmount)\<rparr>
          else \<lparr>usdc = Num u, tBills = Num (t - (distAmount - c)), bonds = Num b, cash = Num 0\<rparr>)"
    by (simp add: DISTRIBUTION_apply_def getTotalValue_def Let_def)
next
  show "fst (DISTRIBUTION_apply (s\<lparr>params := (params s)\<lparr>yieldDistribution := Num 100\<rparr>\<rparr>)
            initialPortfolio)
       = \<lparr>usdc = Num 400000, tBills = Num (- 600000), bonds = Num 200000, cash = Num 0\<rparr>"
    by (simp add: DISTRIBUTION_apply_def getTotalValue_def initialPortfolio_def Let_def)
qed


text \<open>
  On whole amounts with an even amount of bonds and a total below \<open>2 ^ 53\<close> no
  operation of REBALANCE or of the total value rounds, and the total value is the same
  after REBALANCE as before.
\<close>

lemma REBALANCE_whole_total:
  assumes w: "u \<in> \<int>" "t \<in> \<int>" "b / 2 \<in> \<int>" "c \<in> \<int>"
    and f: "0 \<le> u" "0 \<le> t" "0 \<le> b" "0 \<le> c"
    and lt: "u + t + b + c < 2 ^ 53"
  shows "getTotalValue64 (fst (REBALANCE_apply64 s
            \<lparr>usdc = Num u, tBills = Num t, bonds = Num b, cash = Num c\<rparr>))
         = getTotalValue64 \<lparr>usdc = Num u, tBills = Num t, bonds = Num b, cash = Num c\<rparr>"
proof -
  have b: "b \<in> \<int>"
    using Ints_add [OF w(3) w(3)] by simp
  have r1: "binary64 (u + t) = u + t"
    using w f lt by (intro binary64_whole) simp_all
  have r2: "binary64 (u + t + b) = u + t + b"
    using w b f lt by (intro binary64_whole) simp_all
  have r3: "binary64 (u + t + b + c) = u + t + b + c"
    using w b f lt by (intro binary64_whole) simp_all
  have before: "getTotalValue64 \<lparr>usdc = Num u, tBills = Num t, bonds = Num b, cash = Num c\<rparr>
      = Num (u + t + b + c)"
    by (simp only: getTotalValue64_def portfolio.select_convs ops64 r1 r2 r3)
  have h: "binary64 (b / 2) = b / 2"
    using w f lt by (intro binary64_whole) simp_all
  have h': "binary64 (b - b / 2) = b / 2"
    using h by simp
  have t': "binary64 (t + b / 2) = t + b / 2"
    using w f lt by (intro binary64_whole) simp_all
  have s1: "binary64 (u + (t + b / 2)) = u + (t + b / 2)"
    using w f lt by (intro binary64_whole) simp_all
  have s2: "binary64 (u + (t + b / 2) + b / 2) = u + t + b"
    using r2 by (simp add: algebra_simps)
  have after: "getTotalValue64
        \<lparr>usdc = Num u, tBills = Num (t + b / 2), bonds = Num (b / 2), cash = Num c\<rparr>
      = Num (u + t + b + c)"
    by (simp only: getTotalValue64_def portfolio.select_convs ops64 s1 s2 r3)
  show ?thesis
    by (simp add: REBALANCE_apply64_def Let_def before after h h' t')
qed



text \<open>
  Claim C10. For every state (hence every parameter set) and every input portfolio,
  each of the transitions SHOCK, REBALANCE and DISTRIBUTION returns a portfolio whose
  usdc field is the usdc field of the input.
\<close>

theorem steps_keep_usdc:
  "usdc (fst (SHOCK_apply s p)) = usdc p
   \<and> usdc (fst (REBALANCE_apply s p)) = usdc p
   \<and> usdc (fst (DISTRIBUTION_apply s p)) = usdc p"
  by (simp add: SHOCK_apply_def REBALANCE_apply_def DISTRIBUTION_apply_def Let_def)

section \<open>Reset, advance and presets\<close>

text \<open>
  Claim C5. After \<open>resetSimulation\<close>, from any state: the step index is 0, the
  portfolio is the initial allocation (usdc 400000, tBills 300000, bonds 200000, cash
  100000), the history is the single entry of step 0 with the total value of the
  initial allocation, which is 1000000, and the log is the single reset line.
\<close>

theorem resetSimulation_result:
  "currentStep (resetSimulation s) = 0
   \<and> portfolio (resetSimulation s)
       = \<lparr>usdc = Num 400000, tBills = Num 300000, bonds = Num 200000, cash = Num 100000\<rparr>
   \<and> history (resetSimulation s) = [Some \<lparr>step = 0, value_h = getTotalValue initialPortfolio\<rparr>]
   \<and> getTotalValue initialPortfolio = Num 1000000
   \<and> logs (resetSimulation s) = [SimulationReset]"
  by (simp add: resetSimulation_def renderAll_def renderControls_def logEvent_def
      initialPortfolio_def getTotalValue_def Let_def)

lemma stopSimulation_idem: "stopSimulation (stopSimulation s) = stopSimulation s"
  by (cases "timerId s")
     (simp_all add: stopSimulation_def renderControls_def clearInterval_def Let_def)

lemma stopSimulation_frame:
  "currentStep (stopSimulation s) = currentStep s"
  "portfolio (stopSimulation s) = portfolio s"
  "history (stopSimulation s) = history s"
  "logs (stopSimulation s) = logs s"
  "params (stopSimulation s) = params s"
  "isPlaying (stopSimulation s) = False"
  by (cases "timerId s"; simp add: stopSimulation_def renderControls_def clearInterval_def Let_def)+

text \<open>
  Claim C8. When the step index is at the terminal step 3, \<open>nextStep\<close> does what
  \<open>stopSimulation\<close> does and nothing more: the step index, the portfolio, the history,
  the log and the parameters are unchanged and the simulation is not playing. It has
  no failing branch, and a second call changes nothing: \<open>nextStep (nextStep s) = nextStep s\<close>.
\<close>

theorem nextStep_at_terminal:
  assumes "currentStep s = 3"
  shows "nextStep s = stopSimulation s
         \<and> currentStep (nextStep s) = 3
         \<and> portfolio (nextStep s) = portfolio s
         \<and> history (nextStep s) = history s
         \<and> logs (nextStep s) = logs s
         \<and> params (nextStep s) = params s
         \<and> isPlaying (nextStep s) = False
         \<and> nextStep (nextStep s) = nextStep s"
proof -
  have stop: "nextStep s' = stopSimulation s'" if "currentStep s' = 3" for s'
    using that by (simp add: nextStep_def SIMULATION_STEPS_def)
  have "nextStep (nextStep s) = nextStep s"
    using assms by (simp add: stop stopSimulation_frame stopSimulation_idem)
  then show ?thesis
    using assms by (simp add: stop stopSimulation_frame)
qed

text \<open>
  Claim C8 on a state at step 3 that is playing with the repeating timer 7 live: the
  call stops the play, cancels the timer and touches nothing else, twice as once.
\<close>

theorem nextStep_at_terminal_witness:
  "currentStep (state0\<lparr>currentStep := 3, isPlaying := True, timerId := Some 7,
                       timers := [(7, Interval_nextStep)]\<rparr>) = 3
   \<and> nextStep (state0\<lparr>currentStep := 3, isPlaying := True, timerId := Some 7,
                       timers := [(7, Interval_nextStep)]\<rparr>)
       = state0\<lparr>currentStep := 3, btnPause_disabled := True\<rparr>
   \<and> nextStep (nextStep (state0\<lparr>currentStep := 3, isPlaying := True, timerId := Some 7,
                       timers := [(7, Interval_nextStep)]\<rparr>))
       = state0\<lparr>currentStep := 3, btnPause_disabled := True\<rparr>"
proof -
  let ?X = "state0\<lparr>currentStep := 3, isPlaying := True, timerId := Some 7,
                   timers := [(7, Interval_nextStep)]\<rparr>"
  have at3: "currentStep ?X = 3"
    by simp
  have stopped: "stopSimulation ?X = state0\<lparr>currentStep := 3, btnPause_disabled := True\<rparr>"
    by (simp add: state0_def stopSimulation_def renderControls_def clearInterval_def Let_def)
  from nextStep_at_terminal [OF at3]
  have "nextStep ?X = stopSimulation ?X" and "nextStep (nextStep ?X) = nextStep ?X"
    by blast+
  with at3 stopped show ?thesis
    by simp
qed

text \<open>What \<open>applyPreset\<close> does on a name that \<^verbatim>\<open>PRESETS[presetName]\<close> does not find,
  and on the three names of \<^verbatim>\<open>PRESETS\<close>: nothing, and the three parameters of the
  preset, a reset and the log line of the preset.\<close>

lemma applyPreset_not_found: "PRESETS presetName = NoProperty \<Longrightarrow> applyPreset presetName s = s"
  by (simp add: applyPreset_def)

lemma applyPreset_own:
  assumes "PRESETS presetName = OwnPreset pr"
  shows "applyPreset presetName s =
     logEvent (PresetLoaded (Some (label pr)))
       (resetSimulation (s\<lparr>params := (params s)
          \<lparr>shockMagnitude := Num (shockMagnitude_of pr),
            targetReserveRatio := Num (targetReserveRatio_of pr),
            yieldDistribution := Num (yieldDistribution_of pr)\<rparr>\<rparr>))"
  using assms by (simp add: applyPreset_def property_num_def property_label_def Let_def)

lemma applyPreset_aggressive:
  "params (applyPreset ''aggressive'' s)
     = \<lparr>shockMagnitude = Num 35, targetReserveRatio = Num 105, yieldDistribution = Num 8\<rparr>
   \<and> currentStep (applyPreset ''aggressive'' s) = 0
   \<and> portfolio (applyPreset ''aggressive'' s) = initialPortfolio
   \<and> logs (applyPreset ''aggressive'' s) = [SimulationReset, PresetLoaded (Some ''Aggressive'')]"
proof -
  have "PRESETS ''aggressive'' = OwnPreset \<lparr>shockMagnitude_of = 35, targetReserveRatio_of = 105,
      yieldDistribution_of = 8, label = ''Aggressive''\<rparr>"
    by (simp add: PRESETS_def)
  from applyPreset_own [OF this] show ?thesis
    by (cases "timerId s"; cases "params s") (simp_all add: step_defs control_defs)
qed

text \<open>
  Claim C9 at the name \<^verbatim>\<open>constructor\<close>, which is not one of conservative, balanced,
  aggressive: \<^verbatim>\<open>PRESETS["constructor"]\<close> is a member of \<^verbatim>\<open>Object.prototype\<close>, so the
  test \<^verbatim>\<open>if (!preset) return\<close> lets it pass; the three parameters become
  \<^verbatim>\<open>undefined\<close>, the simulation is reset and the line
  \<^verbatim>\<open>Preset loaded: undefined\<close> is logged. The state of the loaded page is changed by
  the call.
\<close>

theorem applyPreset_inherited_name:
  "PRESETS ''constructor'' = PrototypeMember
   \<and> params (applyPreset ''constructor'' s)
       = \<lparr>shockMagnitude = Undefined, targetReserveRatio = Undefined, yieldDistribution = Undefined\<rparr>
   \<and> currentStep (applyPreset ''constructor'' s) = 0
   \<and> logs (applyPreset ''constructor'' s) = [SimulationReset, PresetLoaded None]
   \<and> applyPreset ''constructor'' (init state0) \<noteq> init state0"
proof -
  have look: "PRESETS ''constructor'' = PrototypeMember"
    by (simp add: PRESETS_def Object_prototype_names_def)
  have call: "applyPreset ''constructor'' s' =
      logEvent (PresetLoaded None) (resetSimulation (s'\<lparr>params := (params s')
        \<lparr>shockMagnitude := Undefined, targetReserveRatio := Undefined,
          yieldDistribution := Undefined\<rparr>\<rparr>))" for s'
    by (simp add: applyPreset_def look property_num_def property_label_def Let_def)
  have lg: "logs (applyPreset ''constructor'' s') = [SimulationReset, PresetLoaded None]" for s'
    by (cases "timerId s'") (simp_all add: call step_defs control_defs)
  have "logs (init state0) = [SimulationReset]"
    by (simp add: init_def state0_def step_defs control_defs)
  with lg [of "init state0"] have "applyPreset ''constructor'' (init state0) \<noteq> init state0"
    by auto
  moreover have "params (applyPreset ''constructor'' s)
       = \<lparr>shockMagnitude = Undefined, targetReserveRatio = Undefined, yieldDistribution = Undefined\<rparr>"
    by (cases "timerId s"; cases "params s") (simp_all add: call step_defs control_defs)
  moreover have "currentStep (applyPreset ''constructor'' s) = 0"
    by (cases "timerId s") (simp_all add: call step_defs control_defs)
  ultimately show ?thesis
    using look lg by simp
qed

section \<open>Timers\<close>

text \<open>
  \<open>stopSimulation\<close> cancels the timer that \<^verbatim>\<open>state.timerId\<close> holds: after it, that
  id is not live.
\<close>

lemma stopSimulation_cancels_tracked:
  "timerId s = Some t \<Longrightarrow> t \<noteq> 0 \<Longrightarrow> t \<notin> set (live_intervals (stopSimulation s))"
  by (auto simp add: stopSimulation_def renderControls_def clearInterval_def live_intervals_def
      Let_def)

text \<open>
  Claim C4 on the code. \<open>startPlaySequence\<close> cancels nothing: the repeating timers
  live before it are live after it, with the new one. A state with two live repeating
  timers is reached from the loaded page: play is clicked, the timer 1 fires three times
  and the simulation stops itself at step 3; play is clicked again, which resets and
  defers \<open>startPlaySequence\<close> by the one-shot timer 2; before that timer fires, play
  is clicked once more (after the reset the button is enabled), which starts the
  repeating timer 3; the one-shot timer fires and starts the repeating timer 4. The
  timers 3 and 4 are both live, and \<^verbatim>\<open>state.timerId\<close> holds 4 only: a click on
  pause cancels 4 and leaves 3 live, with the simulation not playing.
\<close>

theorem second_play_leaks_timer:
  "live_intervals (startPlaySequence s) = live_intervals s @ [nextTimer s]
   \<and> map_option (\<lambda>s. (live_intervals s, timerId s))
        (run [ClickPlay, IntervalFires 1, IntervalFires 1, IntervalFires 1,
              ClickPlay, ClickPlay, TimeoutFires 2] (init state0))
       = Some ([3, 4], Some 4)
   \<and> map_option (\<lambda>s. (live_intervals s, timerId s, isPlaying s))
        (run [ClickPlay, IntervalFires 1, IntervalFires 1, IntervalFires 1,
              ClickPlay, ClickPlay, TimeoutFires 2, ClickPause] (init state0))
       = Some ([3], None, False)"
  by (simp add: step_defs control_defs run.simps enabled_def handle_def init_def state0_def
      playSimulation_def startPlaySequence_def setInterval_def setTimeout_def
      live_intervals_def)

end
